theory Spec2Isabelle
  imports Complex_Main "HOL-Library.Sublist"
begin

section \<open>Values, errors and decimals\<close>

text \<open>
  The numeric arguments of the settlement code are JSON numbers or null.
  \<open>PInt i\<close> is the Python int \<open>i\<close>; \<open>PNone\<close> is \<open>None\<close>; \<open>PFloat r\<close> is the Python float
  nearest to the decimal \<open>r\<close>. A float that the code receives is given by its literal
  \<open>r\<close>, of at most 15 significant digits: such a literal names exactly one float, and
  \<open>str\<close> of that float gives the literal back. Strings, booleans, infinities and NaN in
  a numeric position are outside the model.
\<close>

datatype pynum = PNone | PInt int | PFloat rat

text \<open>
  One constructor for each place where the code raises, and one for each exception
  of the Python library that the modelled operations can raise.
  \<^item> \<open>InvalidOperation\<close>: \<open>decimal.InvalidOperation\<close> (an \<open>ArithmeticError\<close>), raised by
    \<open>Decimal(str(None))\<close>;
  \<^item> \<open>InvalidNumericInput\<close>: \<open>ValueError("Invalid numeric input: ...")\<close>, referee.py line 65;
  \<^item> \<open>ScoresNull\<close>: \<open>ValueError("Game scores cannot be null")\<close>, referee.py line 69;
  \<^item> \<open>StakeNotPositive\<close>: \<open>ValueError("Stake must be greater than 0")\<close>, referee.py line 72;
  \<^item> \<open>InvalidUserPick\<close>: \<open>ValueError("Invalid user_pick for totals bet: ...")\<close>, line 141;
  \<^item> \<open>InvalidBetType\<close>: \<open>ValueError("Invalid bet_type: ... Must be ...")\<close>, line 162;
  \<^item> \<open>ScoresMissing\<close>: \<open>ValueError("Game scores are missing or null")\<close>, bet_tracker.py line 265;
  \<^item> \<open>WrapperInvalidBetType\<close>: \<open>ValueError("Invalid bet_type: ...")\<close>, bet_tracker.py line 278;
  \<^item> \<open>UnpackError\<close>: the \<open>ValueError\<close> of unpacking a list of the wrong length into two names;
  \<^item> \<open>TypeError\<close>, \<open>AttributeError\<close>: the Python exceptions of these names.
\<close>

datatype error =
    InvalidOperation
  | InvalidNumericInput
  | ScoresNull
  | StakeNotPositive
  | InvalidUserPick
  | InvalidBetType
  | ScoresMissing
  | WrapperInvalidBetType
  | UnpackError
  | TypeError
  | AttributeError

text \<open>Which of the errors are instances of \<open>ValueError\<close> or \<open>TypeError\<close>.\<close>

fun is_ValueError_or_TypeError :: "error \<Rightarrow> bool" where
  "is_ValueError_or_TypeError InvalidOperation = False"
| "is_ValueError_or_TypeError AttributeError = False"
| "is_ValueError_or_TypeError _ = True"

definition bindE :: "error + 'a \<Rightarrow> ('a \<Rightarrow> error + 'b) \<Rightarrow> error + 'b" where
  "bindE m f = (case m of Inl e \<Rightarrow> Inl e | Inr x \<Rightarrow> f x)"

text \<open>
  \<open>Decimal(str(x))\<close>. A \<open>Decimal\<close> is an exact decimal fraction, modelled as a
  rational; the 28 significant digits of the default context are taken to be enough
  for every intermediate result. \<open>str(None)\<close> is \<open>'None'\<close>, which is no decimal numeral.
\<close>

fun to_decimal :: "pynum \<Rightarrow> error + rat" where
  "to_decimal PNone = Inl InvalidOperation"
| "to_decimal (PInt i) = Inr (of_int i)"
| "to_decimal (PFloat r) = Inr r"

text \<open>\<open>d.quantize(Decimal('0.01'), rounding=ROUND_HALF_UP)\<close>: to the nearest hundredth,
  a tie going away from zero.\<close>

definition quantize_half_up :: "rat \<Rightarrow> rat" where
  "quantize_half_up d = sgn d * of_int \<lfloor>\<bar>d\<bar> * 100 + 1 / 2\<rfloor> / 100"

section \<open>The core referee function (referee.py)\<close>

text \<open>The result letters \<open>'W'\<close>, \<open>'L'\<close> and \<open>'P'\<close>.\<close>

datatype outcome = Win | Loss | Push

record settlement =
  result :: outcome
  final_pl :: pynum

text \<open>Lines 129 to 134: the decision of a spread bet.\<close>

definition spread_decision :: "rat \<Rightarrow> rat \<Rightarrow> outcome" where
  "spread_decision adjusted_score opponent_score =
     (if adjusted_score > opponent_score then Win
      else if adjusted_score < opponent_score then Loss
      else Push)"

text \<open>Lines 166 to 174: the 10% juice rule.\<close>

definition juice_rule :: "outcome \<Rightarrow> rat \<Rightarrow> bool \<Rightarrow> rat" where
  "juice_rule res stake_decimal no_juice =
     (case res of
        Win \<Rightarrow> stake_decimal
      | Loss \<Rightarrow> (if no_juice then - stake_decimal else - (stake_decimal * (11 / 10)))
      | Push \<Rightarrow> 0)"

text \<open>
  \<open>settleBet\<close>, in the order of the source. The four conversions sit in a \<open>try\<close> whose
  handler turns a \<open>ValueError\<close> or a \<open>TypeError\<close> into \<open>InvalidNumericInput\<close>; any other
  exception leaves the function as it is. After the conversions \<open>home_score\<close> and
  \<open>away_score\<close> are \<open>Decimal\<close> objects, so the test \<open>home_score is None or away_score is None\<close>
  of line 68 is false whenever it is reached. \<open>float(final_pl_rounded)\<close> is the float
  written as the two-place decimal.
\<close>

definition convert_inputs ::
  "pynum \<Rightarrow> pynum \<Rightarrow> pynum \<Rightarrow> pynum \<Rightarrow> error + (rat \<times> rat \<times> rat \<times> rat)" where
  "convert_inputs home_team_score away_team_score line stake =
     (case bindE (to_decimal home_team_score) (\<lambda>home_score.
           bindE (to_decimal away_team_score) (\<lambda>away_score.
           bindE (to_decimal line) (\<lambda>line_decimal.
           bindE (to_decimal stake) (\<lambda>stake_decimal.
             Inr (home_score, away_score, line_decimal, stake_decimal))))) of
        Inl e \<Rightarrow> (if is_ValueError_or_TypeError e then Inl InvalidNumericInput else Inl e)
      | Inr v \<Rightarrow> Inr v)"

definition settleBet ::
  "pynum \<Rightarrow> pynum \<Rightarrow> string \<Rightarrow> string \<Rightarrow> pynum \<Rightarrow> pynum \<Rightarrow> bool \<Rightarrow> error + settlement" where
  "settleBet home_team_score away_team_score bet_type user_pick line stake no_juice =
     bindE (convert_inputs home_team_score away_team_score line stake)
       (\<lambda>(home_score, away_score, line_decimal, stake_decimal).
          if False then Inl ScoresNull
          else if stake_decimal \<le> 0 then Inl StakeNotPositive
          else
            bindE
              (if bet_type = ''spread'' then
                 (if line_decimal < 0
                  then Inr (spread_decision (home_score + line_decimal) away_score)
                  else Inr (spread_decision (away_score + line_decimal) home_score))
               else if bet_type = ''totals'' then
                 (let total_score = home_score + away_score in
                  if user_pick \<noteq> ''Over'' \<and> user_pick \<noteq> ''Under'' then Inl InvalidUserPick
                  else if user_pick = ''Over'' then
                    Inr (if total_score > line_decimal then Win
                         else if total_score < line_decimal then Loss
                         else Push)
                  else
                    Inr (if total_score < line_decimal then Win
                         else if total_score > line_decimal then Loss
                         else Push))
               else Inl InvalidBetType)
              (\<lambda>res.
                 Inr \<lparr>result = res,
                      final_pl = PFloat (quantize_half_up (juice_rule res stake_decimal no_juice))\<rparr>))"

section \<open>Python floats\<close>

text \<open>
  A float is an IEEE double. \<open>fl q\<close> is the double nearest to the rational \<open>q\<close>, a
  tie going to the even significand of 53 bits; overflow and subnormal numbers are
  not modelled. \<open>PFloat r\<close> has the value \<open>fl r\<close>.
\<close>

fun ilog2 :: "nat \<Rightarrow> nat" where
  "ilog2 n = (if n < 2 then 0 else Suc (ilog2 (n div 2)))"

declare ilog2.simps [simp del]

definition clog2 :: "nat \<Rightarrow> nat" where
  "clog2 n = (if n \<le> 1 then 0 else Suc (ilog2 (n - 1)))"

definition round_half_even :: "rat \<Rightarrow> int" where
  "round_half_even x =
     (let f = \<lfloor>x\<rfloor>; d = x - of_int f
      in if d < 1 / 2 then f else if d > 1 / 2 then f + 1
         else if even f then f else f + 1)"

text \<open>The binary exponent of a positive rational \<open>a\<close>: \<open>2 ^ e \<le> a < 2 ^ (e + 1)\<close>.\<close>

definition fexp :: "rat \<Rightarrow> int" where
  "fexp a = (if a \<ge> 1 then int (ilog2 (nat \<lfloor>a\<rfloor>))
             else - int (clog2 (nat \<lceil>1 / a\<rceil>)))"

definition fl :: "rat \<Rightarrow> rat" where
  "fl q = (if q = 0 then 0
           else let a = \<bar>q\<bar>; e = fexp a - 52;
                    u = (if e \<ge> 0 then 2 ^ nat e else 1 / 2 ^ nat (- e))
                in sgn q * of_int (round_half_even (a / u)) * u)"

text \<open>The value of a number. \<open>None\<close> has none: every use below is guarded by a test
  for \<open>PNone\<close>, and the value given here is never read.\<close>

fun num_val :: "pynum \<Rightarrow> rat" where
  "num_val (PInt i) = of_int i"
| "num_val (PFloat r) = fl r"
| "num_val PNone = 0"

text \<open>\<open>x + y\<close>: exact on two ints; otherwise the int operand is converted to a float
  and the sum of the two doubles is rounded to a double.\<close>

fun py_add :: "pynum \<Rightarrow> pynum \<Rightarrow> error + pynum" where
  "py_add (PInt a) (PInt b) = Inr (PInt (a + b))"
| "py_add (PInt a) (PFloat r) = Inr (PFloat (fl (of_int a) + fl r))"
| "py_add (PFloat r) (PInt b) = Inr (PFloat (fl r + fl (of_int b)))"
| "py_add (PFloat r) (PFloat q) = Inr (PFloat (fl r + fl q))"
| "py_add _ _ = Inl TypeError"

text \<open>\<open>x < y\<close> and \<open>x > y\<close>: Python compares an int with a float by their exact values.\<close>

fun py_lt :: "pynum \<Rightarrow> pynum \<Rightarrow> error + bool" where
  "py_lt PNone _ = Inl TypeError"
| "py_lt _ PNone = Inl TypeError"
| "py_lt x y = Inr (num_val x < num_val y)"

fun py_gt :: "pynum \<Rightarrow> pynum \<Rightarrow> error + bool" where
  "py_gt PNone _ = Inl TypeError"
| "py_gt _ PNone = Inl TypeError"
| "py_gt x y = Inr (num_val x > num_val y)"

text \<open>\<open>round(x, 2)\<close> of the float nearest to \<open>r\<close>: the exact value of the double is
  rounded to two decimals, a tie going to the even digit, and the result is the
  float nearest to that decimal.\<close>

definition py_round2 :: "rat \<Rightarrow> rat" where
  "py_round2 r = of_int (round_half_even (fl r * 100)) / 100"

section \<open>Python strings\<close>

text \<open>Strings are ASCII: a \<open>char\<close> is a byte. \<open>str.isspace\<close> holds of the bytes
  9 to 13 and 28 to 32.\<close>

definition py_isspace :: "char \<Rightarrow> bool" where
  "py_isspace c = (let n = (of_char c :: nat) in (9 \<le> n \<and> n \<le> 13) \<or> (28 \<le> n \<and> n \<le> 32))"

definition py_strip :: "string \<Rightarrow> string" where
  "py_strip s = rev (dropWhile py_isspace (rev (dropWhile py_isspace s)))"

definition py_lower_char :: "char \<Rightarrow> char" where
  "py_lower_char c =
     (let n = (of_char c :: nat) in if 65 \<le> n \<and> n \<le> 90 then char_of (n + 32) else c)"

definition py_lower :: "string \<Rightarrow> string" where
  "py_lower s = map py_lower_char s"

text \<open>\<open>s.replace(' ', '')\<close>.\<close>

definition remove_spaces :: "string \<Rightarrow> string" where
  "remove_spaces s = filter (\<lambda>c. c \<noteq> CHR '' '') s"

fun starts_with :: "string \<Rightarrow> string \<Rightarrow> bool" where
  "starts_with [] s = True"
| "starts_with (p # ps) [] = False"
| "starts_with (p # ps) (c # cs) = (p = c \<and> starts_with ps cs)"

text \<open>\<open>sub in s\<close>.\<close>

fun py_in :: "string \<Rightarrow> string \<Rightarrow> bool" where
  "py_in sub [] = (sub = [])"
| "py_in sub (c # cs) = (starts_with sub (c # cs) \<or> py_in sub cs)"

text \<open>\<open>s.split(sep)\<close> for a separator that is not empty: the leftmost occurrences,
  not overlapping. \<open>skip\<close> counts the characters of a separator still to pass.\<close>

fun split_aux :: "string \<Rightarrow> nat \<Rightarrow> string \<Rightarrow> string \<Rightarrow> string list" where
  "split_aux sep skip acc [] = [rev acc]"
| "split_aux sep (Suc k) acc (c # cs) = split_aux sep k acc cs"
| "split_aux sep 0 acc (c # cs) =
     (if starts_with sep (c # cs) then rev acc # split_aux sep (length sep - 1) [] cs
      else split_aux sep 0 (c # acc) cs)"

definition py_split :: "string \<Rightarrow> string \<Rightarrow> string list" where
  "py_split sep s = split_aux sep 0 [] s"

text \<open>\<open>s.split()\<close>: the maximal runs of characters that are not whitespace.\<close>

fun words_aux :: "string \<Rightarrow> string \<Rightarrow> string list" where
  "words_aux acc [] = (if acc = [] then [] else [rev acc])"
| "words_aux acc (c # cs) =
     (if py_isspace c then (if acc = [] then words_aux [] cs else rev acc # words_aux [] cs)
      else words_aux (c # acc) cs)"

definition py_words :: "string \<Rightarrow> string list" where
  "py_words s = words_aux [] s"

text \<open>\<open>sep.join(parts)\<close>, the inverse of \<open>split\<close>.\<close>

fun py_join :: "string \<Rightarrow> string list \<Rightarrow> string" where
  "py_join sep [] = []"
| "py_join sep [x] = x"
| "py_join sep (x # y # ys) = x @ sep @ py_join sep (y # ys)"

section \<open>Score records and the game matcher (bet\_tracker.py)\<close>

text \<open>
  A score record is a dict; a key that may be missing is an \<open>option\<close>. The value of
  \<open>'scores'\<close> is null, a list whose elements are dicts with an optional \<open>'score'\<close> (or
  are no dicts), or a dict with optional \<open>'home'\<close> and \<open>'away'\<close>. The keys
  \<open>'home_team'\<close> and \<open>'away_team'\<close> hold strings and \<open>'completed'\<close> a bool when present.
\<close>

datatype score_entry = ScoreDict "pynum option" | NotDict

datatype scores_val =
    ScoresNone
  | ScoresList "score_entry list"
  | ScoresDict "pynum option" "pynum option"

record game_score =
  gs_scores :: "scores_val option"
  gs_home_score :: "pynum option"
  gs_away_score :: "pynum option"
  gs_home_team :: "string option"
  gs_away_team :: "string option"
  gs_completed :: "bool option"

text \<open>\<open>d.get(key, default)\<close> on the optional value of the key.\<close>

definition dict_get :: "'a option \<Rightarrow> 'a \<Rightarrow> 'a" where
  "dict_get v dflt = (case v of None \<Rightarrow> dflt | Some x \<Rightarrow> x)"

text \<open>The module-level \<open>normalize_team_name\<close>, line 177.\<close>

definition normalize_team_name :: "string \<Rightarrow> string" where
  "normalize_team_name name = py_strip name"

text \<open>The nested function \<open>teams_match\<close>, lines 213 to 227.\<close>

definition teams_match :: "string \<Rightarrow> string \<Rightarrow> bool" where
  "teams_match team1 team2 =
     (let t1 = py_strip (py_lower team1);
          t2 = py_strip (py_lower team2)
      in if t1 = t2 then True
         else if py_in t1 t2 \<or> py_in t2 t1 then True
         else let words1 = set (filter (\<lambda>w. length w > 3) (py_words t1));
                  words2 = set (filter (\<lambda>w. length w > 3) (py_words t2))
              in if words1 \<noteq> {} \<and> words2 \<noteq> {} \<and> words1 \<inter> words2 \<noteq> {} then True
                 else False)"

text \<open>Line 206: \<open>score.get('completed', False) or score.get('scores') is not None\<close>.\<close>

definition completed_signal :: "game_score \<Rightarrow> bool" where
  "completed_signal score =
     (dict_get (gs_completed score) False
      \<or> (case gs_scores score of None \<Rightarrow> False | Some ScoresNone \<Rightarrow> False | Some _ \<Rightarrow> True))"

text \<open>The loop of lines 204 to 236, returning at the first record that matches.\<close>

fun match_loop :: "string \<Rightarrow> string \<Rightarrow> game_score list \<Rightarrow> game_score option" where
  "match_loop bet_home bet_away [] = None"
| "match_loop bet_home bet_away (score # scores) =
     (if completed_signal score then
        (let home = normalize_team_name (dict_get (gs_home_team score) '''');
             away = normalize_team_name (dict_get (gs_away_team score) '''')
         in if teams_match bet_home home \<and> teams_match bet_away away then Some score
            else if teams_match bet_home away \<and> teams_match bet_away home then Some score
            else match_loop bet_home bet_away scores)
      else match_loop bet_home bet_away scores)"

text \<open>Lines 188 to 199: the two names \<open>(bet_home, bet_away)\<close> of a label, \<open>None\<close> where
  the function returns \<open>None\<close>, and the error of an unpacking that does not get two
  parts.\<close>

definition parse_game :: "string \<Rightarrow> error + (string \<times> string) option" where
  "parse_game bet_game =
     (if py_in '' vs '' bet_game then
        (case py_split '' vs '' bet_game of
           [bet_home, bet_away] \<Rightarrow> Inr (Some (bet_home, bet_away))
         | _ \<Rightarrow> Inl UnpackError)
      else if py_in '' @ '' bet_game then
        (case py_split '' @ '' bet_game of
           [bet_away, bet_home] \<Rightarrow> Inr (Some (bet_home, bet_away))
         | _ \<Rightarrow> Inl UnpackError)
      else
        (let parts = py_words bet_game
         in if length parts \<ge> 2 then Inr (Some (last parts, hd parts))
            else Inr None))"

definition find_matching_game :: "string \<Rightarrow> game_score list \<Rightarrow> error + game_score option" where
  "find_matching_game bet_game scores =
     bindE (parse_game bet_game) (\<lambda>names.
       case names of
         None \<Rightarrow> Inr None
       | Some (bet_home, bet_away) \<Rightarrow>
           Inr (match_loop (normalize_team_name bet_home) (normalize_team_name bet_away) scores))"

section \<open>The settlement wrapper (bet\_tracker.py)\<close>

text \<open>
  A bet is a dict. The keys the wrapper reads and writes are the fields below, a key
  that may be missing being an \<open>option\<close>; \<open>'bet_type'\<close>, \<open>'team'\<close> and \<open>'direction'\<close> hold
  strings and \<open>'no_juice'\<close> a bool when present. \<open>b_other\<close> holds every other key of the
  dict (\<open>'id'\<close>, \<open>'user'\<close>, \<open>'game'\<close> and so on).
\<close>

record bet =
  b_bet_type :: "string option"
  b_stake :: "pynum option"
  b_team :: "string option"
  b_direction :: "string option"
  b_spread :: "pynum option"
  b_total :: "pynum option"
  b_no_juice :: "bool option"
  b_result :: "outcome option"
  b_profit :: "pynum option"
  b_payout :: "pynum option"
  b_settled :: "bool option"
  b_settled_at :: "string option"
  b_final_score :: "string option"
  b_other :: "(string \<times> string) list"

text \<open>Lines 254 to 261: the two scores of a score record. In the second format the
  default \<open>game_score.get('scores', {}).get('home', 0)\<close> is evaluated before the lookup
  of \<open>'home_score'\<close>, and fails on a value of \<open>'scores'\<close> that is no dict.\<close>

fun entry_score :: "score_entry \<Rightarrow> pynum" where
  "entry_score (ScoreDict v) = dict_get v (PInt 0)"
| "entry_score NotDict = PInt 0"

definition extract_scores :: "game_score \<Rightarrow> error + (pynum \<times> pynum)" where
  "extract_scores game_score =
     (case gs_scores game_score of
        Some (ScoresList (e0 # e1 # rest)) \<Rightarrow> Inr (entry_score e0, entry_score e1)
      | None \<Rightarrow>
          Inr (dict_get (gs_home_score game_score) (PInt 0),
               dict_get (gs_away_score game_score) (PInt 0))
      | Some (ScoresDict h a) \<Rightarrow>
          Inr (dict_get (gs_home_score game_score) (dict_get h (PInt 0)),
               dict_get (gs_away_score game_score) (dict_get a (PInt 0)))
      | Some _ \<Rightarrow> Inl AttributeError)"

text \<open>The nested \<open>normalize_team_name\<close> of \<open>settle_bet\<close>, line 291:
  \<open>name.strip().lower().replace(' ', '')\<close>.\<close>

definition settle_bet_normalize_team_name :: "string \<Rightarrow> string" where
  "settle_bet_normalize_team_name name = remove_spaces (py_lower (py_strip name))"

text \<open>Lines 294 to 312: which side a spread bet backs.\<close>

definition betting_on_home :: "string \<Rightarrow> string \<Rightarrow> string \<Rightarrow> pynum \<Rightarrow> error + bool" where
  "betting_on_home user_pick score_home score_away line =
     (let user_pick_normalized = settle_bet_normalize_team_name user_pick;
          home_normalized = settle_bet_normalize_team_name score_home;
          away_normalized = settle_bet_normalize_team_name score_away
      in if user_pick_normalized = home_normalized then Inr True
         else if user_pick_normalized = away_normalized then Inr False
         else if py_in user_pick_normalized home_normalized
                 \<or> py_in home_normalized user_pick_normalized then Inr True
         else if py_in user_pick_normalized away_normalized
                 \<or> py_in away_normalized user_pick_normalized then Inr False
         else py_lt line (PInt 0))"

text \<open>Lines 338 to 360: the decision of a spread bet in the wrapper, on Python numbers.\<close>

definition wrapper_spread_result :: "bool \<Rightarrow> pynum \<Rightarrow> pynum \<Rightarrow> pynum \<Rightarrow> error + outcome" where
  "wrapper_spread_result on_home home_score away_score line =
     bindE (if on_home then py_add home_score line else py_add away_score line)
       (\<lambda>adjusted_score.
          let opponent_score = (if on_home then away_score else home_score) in
          bindE (py_gt adjusted_score opponent_score) (\<lambda>gt.
            if gt then Inr Win
            else bindE (py_lt adjusted_score opponent_score) (\<lambda>lt.
              if lt then Inr Loss else Inr Push)))"

text \<open>Lines 364 to 377: the profit or loss of a spread bet in the wrapper. The decimal
  is converted to a float, which is rounded by \<open>round(final_pl, 2)\<close>.\<close>

definition wrapper_final_pl :: "outcome \<Rightarrow> pynum \<Rightarrow> bool \<Rightarrow> error + rat" where
  "wrapper_final_pl res stake no_juice =
     bindE (to_decimal stake) (\<lambda>stake_decimal.
       let final_pl =
             (case res of
                Win \<Rightarrow> stake_decimal
              | Loss \<Rightarrow> (if no_juice then - stake_decimal else - (stake_decimal * (11 / 10)))
              | Push \<Rightarrow> 0)
       in Inr (py_round2 final_pl))"

text \<open>
  Everything \<open>settle_bet\<close> computes before it builds the updated bet: the result, the
  profit, the payout and the text of the final score. \<open>str_of\<close> is Python's
  formatting of a number in an f-string. The call of \<open>st.error\<close> before the exception
  of \<open>settleBet\<close> is raised again writes to the page only.
\<close>

definition settle_bet_fields ::
  "(pynum \<Rightarrow> string) \<Rightarrow> bet \<Rightarrow> game_score \<Rightarrow> error + (outcome \<times> pynum \<times> pynum \<times> string)" where
  "settle_bet_fields str_of bet game_score =
     bindE (extract_scores game_score) (\<lambda>(home_score, away_score).
       if home_score = PNone \<or> away_score = PNone then Inl ScoresMissing
       else
         let score_home = dict_get (gs_home_team game_score) '''';
             score_away = dict_get (gs_away_team game_score) '''';
             bet_type_str = py_lower (dict_get (b_bet_type bet) '''')
         in if bet_type_str \<noteq> ''spread'' \<and> bet_type_str \<noteq> ''over/under''
            then Inl WrapperInvalidBetType
            else
              let bet_type = (if bet_type_str = ''spread'' then ''spread'' else ''totals'');
                  stake = dict_get (b_stake bet) (PInt 0);
                  user_pick = (if bet_type = ''spread'' then dict_get (b_team bet) ''''
                               else dict_get (b_direction bet) '''');
                  line = (if bet_type = ''spread'' then dict_get (b_spread bet) (PInt 0)
                          else dict_get (b_total bet) (PInt 0));
                  no_juice = dict_get (b_no_juice bet) False;
                  payout = (\<lambda>res. if res = Win then stake else (if res = Push then stake else PInt 0));
                  final_score = score_home @ '' '' @ str_of home_score @ '' - ''
                                @ str_of away_score @ '' '' @ score_away
              in if bet_type = ''spread'' then
                   bindE (betting_on_home user_pick score_home score_away line) (\<lambda>on_home.
                   bindE (wrapper_spread_result on_home home_score away_score line) (\<lambda>res.
                   bindE (wrapper_final_pl res stake no_juice) (\<lambda>final_pl.
                     Inr (res, PFloat (py_round2 final_pl), payout res, final_score))))
                 else
                   bindE (settleBet home_score away_score bet_type user_pick line stake no_juice)
                     (\<lambda>settlement.
                        Inr (result settlement, final_pl settlement,
                             payout (result settlement), final_score)))"

text \<open>
  Dicts live in a heap, a list of objects addressed by their index. \<open>bet.copy()\<close>
  puts a new dict with the same keys and values at a fresh address;
  \<open>updated_bet[key] = value\<close> writes one key of the object at an address.
\<close>

type_synonym heap = "bet list"

definition dict_copy :: "heap \<Rightarrow> nat \<Rightarrow> heap \<times> nat" where
  "dict_copy h a = (h @ [h ! a], length h)"

definition dict_set :: "heap \<Rightarrow> nat \<Rightarrow> (bet \<Rightarrow> bet) \<Rightarrow> heap" where
  "dict_set h a upd = h[a := upd (h ! a)]"

text \<open>
  \<open>settle_bet\<close> on the heap: \<open>bet\<close> is the address of the bet, \<open>now\<close> the text that
  \<open>datetime.now().isoformat()\<close> returns when it is called. Lines 380 to 388 and 408 to
  416 build the updated bet.
\<close>

definition settle_bet_heap ::
  "(pynum \<Rightarrow> string) \<Rightarrow> string \<Rightarrow> heap \<Rightarrow> nat \<Rightarrow> game_score \<Rightarrow> error + (heap \<times> nat)" where
  "settle_bet_heap str_of now h bet game_score =
     bindE (settle_bet_fields str_of (h ! bet) game_score)
       (\<lambda>(res, final_pl, payout, final_score).
          let (h1, updated_bet) = dict_copy h bet;
              h2 = dict_set h1 updated_bet (\<lambda>d. d\<lparr>b_result := Some res\<rparr>);
              h3 = dict_set h2 updated_bet (\<lambda>d. d\<lparr>b_profit := Some final_pl\<rparr>);
              h4 = dict_set h3 updated_bet (\<lambda>d. d\<lparr>b_payout := Some payout\<rparr>);
              h5 = dict_set h4 updated_bet (\<lambda>d. d\<lparr>b_settled := Some True\<rparr>);
              h6 = dict_set h5 updated_bet (\<lambda>d. d\<lparr>b_settled_at := Some now\<rparr>);
              h7 = dict_set h6 updated_bet (\<lambda>d. d\<lparr>b_final_score := Some final_score\<rparr>)
          in Inr (h7, updated_bet))"

text \<open>\<open>settle_bet\<close> as a function of the value of the bet: the dict it returns.\<close>

definition settle_bet ::
  "(pynum \<Rightarrow> string) \<Rightarrow> string \<Rightarrow> bet \<Rightarrow> game_score \<Rightarrow> error + bet" where
  "settle_bet str_of now bet game_score =
     map_sum id (\<lambda>(h, updated_bet). h ! updated_bet)
       (settle_bet_heap str_of now [bet] 0 game_score)"

text \<open>
  Python's \<open>str\<close> of a number, for the examples: the decimal digits of an int, and a
  float in the notation without exponent, which Python uses for a float from
  \<open>0.0001\<close> up to \<open>10 ^ 16\<close>.
\<close>

fun digits_of :: "nat \<Rightarrow> string" where
  "digits_of n = (if n < 10 then [char_of (48 + n)]
                  else digits_of (n div 10) @ [char_of (48 + n mod 10)])"

declare digits_of.simps [simp del]

fun frac_digits :: "nat \<Rightarrow> rat \<Rightarrow> string" where
  "frac_digits 0 f = []"
| "frac_digits (Suc k) f =
     (if f = 0 then []
      else let d = \<lfloor>f * 10\<rfloor> in char_of (48 + nat d) # frac_digits k (f * 10 - of_int d))"

fun py_str :: "pynum \<Rightarrow> string" where
  "py_str PNone = ''None''"
| "py_str (PInt i) = (if i < 0 then CHR ''-'' # digits_of (nat (- i)) else digits_of (nat i))"
| "py_str (PFloat r) =
     (let a = \<bar>r\<bar>; fd = frac_digits 17 (a - of_int \<lfloor>a\<rfloor>)
      in (if r < 0 then ''-'' else []) @ digits_of (nat \<lfloor>a\<rfloor>) @ ''.''
         @ (if fd = [] then ''0'' else fd))"

section \<open>Example inputs\<close>

text \<open>A completed game, Ohio State 24 at home against Miami 21, and a spread bet of 1.15
  on Ohio State at \<open>-3.5\<close>, with juice.\<close>

definition example_game :: game_score where
  "example_game = \<lparr>gs_scores = None, gs_home_score = Some (PInt 24), gs_away_score = Some (PInt 21),
     gs_home_team = Some ''Ohio State'', gs_away_team = Some ''Miami'', gs_completed = Some True\<rparr>"

definition example_bet :: bet where
  "example_bet = \<lparr>b_bet_type = Some ''Spread'', b_stake = Some (PFloat (115 / 100)),
     b_team = Some ''Ohio State'', b_direction = None, b_spread = Some (PFloat (- (7 / 2))),
     b_total = Some PNone, b_no_juice = Some False, b_result = None, b_profit = None,
     b_payout = None, b_settled = None, b_settled_at = None, b_final_score = None,
     b_other = [(''game'', ''Miami @ Ohio State'')]\<rparr>"

text \<open>A second completed game, Ole Miss Rebels at home against Tulane Green Wave.\<close>

definition tulane_game :: game_score where
  "tulane_game = \<lparr>gs_scores = None, gs_home_score = Some (PInt 41), gs_away_score = Some (PInt 10),
     gs_home_team = Some ''Ole Miss Rebels'', gs_away_team = Some ''Tulane Green Wave'',
     gs_completed = Some True\<rparr>"

section \<open>Properties of the core referee function\<close>

lemma convert_inputs_Inr:
  "to_decimal hs = Inr h \<Longrightarrow> to_decimal aw = Inr a \<Longrightarrow> to_decimal li = Inr l \<Longrightarrow>
   to_decimal st = Inr s \<Longrightarrow> convert_inputs hs aw li st = Inr (h, a, l, s)"
  by (simp add: convert_inputs_def bindE_def)

lemma quantize_half_up_hundredths: "\<exists>n :: int. quantize_half_up d = of_int n / 100"
proof (cases "d < 0")
  case True
  then have "quantize_half_up d = of_int (- \<lfloor>\<bar>d\<bar> * 100 + 1 / 2\<rfloor>) / 100"
    by (simp add: quantize_half_up_def)
  then show ?thesis by blast
next
  case False
  then have "quantize_half_up d = of_int (sgn \<lfloor>d\<rfloor> * \<lfloor>\<bar>d\<bar> * 100 + 1 / 2\<rfloor>) / 100
             \<or> quantize_half_up d = of_int \<lfloor>\<bar>d\<bar> * 100 + 1 / 2\<rfloor> / 100
             \<or> quantize_half_up d = of_int 0 / 100"
    by (cases "d = 0") (simp_all add: quantize_half_up_def)
  then show ?thesis by blast
qed

lemma quantize_half_up_near: "\<bar>quantize_half_up d - d\<bar> \<le> 1 / 200"
proof -
  define a where "a = \<bar>d\<bar> * 100 + 1 / 2"
  define n where "n = \<lfloor>a\<rfloor>"
  have f: "of_int n \<le> a" "a < of_int n + 1" unfolding n_def by linarith+
  have "- (1 / 200) \<le> of_int n / 100 - \<bar>d\<bar>" "of_int n / 100 - \<bar>d\<bar> \<le> 1 / 200"
    using f unfolding a_def by linarith+
  then have b: "\<bar>of_int n / 100 - \<bar>d\<bar>\<bar> \<le> 1 / 200" by (intro abs_leI) linarith+
  have "quantize_half_up d - d = sgn d * (of_int n / 100 - \<bar>d\<bar>)"
    unfolding quantize_half_up_def n_def a_def
    by (simp add: algebra_simps abs_sgn mult.commute)
  then have "\<bar>quantize_half_up d - d\<bar> = \<bar>sgn d\<bar> * \<bar>of_int n / 100 - \<bar>d\<bar>\<bar>"
    by (simp only: abs_mult)
  also have "\<dots> \<le> 1 * \<bar>of_int n / 100 - \<bar>d\<bar>\<bar>"
    by (rule mult_right_mono) (simp_all add: abs_sgn_eq)
  finally show ?thesis using b by simp
qed

text \<open>
  The profit or loss that \<open>settleBet\<close> returns: the stake on a win, minus the stake (juice
  waived) or minus 1.1 times the stake on a loss, zero on a push, quantized half up to
  hundredths.
\<close>

lemma settleBet_final_pl:
  assumes "settleBet hs aw bt p li st nj = Inr r" and "to_decimal st = Inr s"
  shows "0 < s
       \<and> final_pl r = PFloat (quantize_half_up
           (case result r of
              Win \<Rightarrow> s
            | Loss \<Rightarrow> (if nj then - s else - (s * (11 / 10)))
            | Push \<Rightarrow> 0))"
  using assms
  by (cases hs; cases aw; cases li)
     (auto simp: settleBet_def convert_inputs_def bindE_def juice_rule_def
           split: if_splits sum.splits)



section \<open>Properties of the settlement wrapper\<close>

lemma settle_bet_eq:
  "settle_bet f now bet gs =
     bindE (settle_bet_fields f bet gs) (\<lambda>(res, pl, po, fs).
       Inr (bet\<lparr>b_result := Some res, b_profit := Some pl, b_payout := Some po,
                b_settled := Some True, b_settled_at := Some now, b_final_score := Some fs\<rparr>))"
  by (simp add: settle_bet_def settle_bet_heap_def dict_copy_def dict_set_def bindE_def
           split: sum.splits prod.splits)

lemma settle_bet_fields_spread:
  assumes "extract_scores gs = Inr (hs, aw)" and "hs \<noteq> PNone" and "aw \<noteq> PNone"
    and "py_lower (dict_get (b_bet_type bet) []) = ''spread''"
    and "betting_on_home (dict_get (b_team bet) []) (dict_get (gs_home_team gs) [])
           (dict_get (gs_away_team gs) []) (dict_get (b_spread bet) (PInt 0)) = Inr on_home"
    and "wrapper_spread_result on_home hs aw (dict_get (b_spread bet) (PInt 0)) = Inr res"
    and "wrapper_final_pl res (dict_get (b_stake bet) (PInt 0)) (dict_get (b_no_juice bet) False) = Inr pl"
  shows "settle_bet_fields f bet gs =
           Inr (res, PFloat (py_round2 pl),
                (if res = Win then dict_get (b_stake bet) (PInt 0)
                 else if res = Push then dict_get (b_stake bet) (PInt 0) else PInt 0),
                dict_get (gs_home_team gs) [] @ '' '' @ f hs @ '' - '' @ f aw @ '' ''
                  @ dict_get (gs_away_team gs) [])"
  using assms by (simp add: settle_bet_fields_def bindE_def Let_def)

lemma settle_bet_fields_totals:
  assumes "extract_scores gs = Inr (hs, aw)" and "hs \<noteq> PNone" and "aw \<noteq> PNone"
    and "py_lower (dict_get (b_bet_type bet) []) = ''over/under''"
  shows "settle_bet_fields f bet gs =
           bindE (settleBet hs aw ''totals'' (dict_get (b_direction bet) [])
                    (dict_get (b_total bet) (PInt 0)) (dict_get (b_stake bet) (PInt 0))
                    (dict_get (b_no_juice bet) False))
             (\<lambda>s. Inr (result s, final_pl s,
                (if result s = Win then dict_get (b_stake bet) (PInt 0)
                 else if result s = Push then dict_get (b_stake bet) (PInt 0) else PInt 0),
                dict_get (gs_home_team gs) [] @ '' '' @ f hs @ '' - '' @ f aw @ '' ''
                  @ dict_get (gs_away_team gs) []))"
  using assms by (simp add: settle_bet_fields_def bindE_def Let_def)

lemma ex_scores: "extract_scores example_game = Inr (PInt 24, PInt 21)"
  by (simp add: extract_scores_def example_game_def dict_get_def)

lemma ex_lower: "py_lower ''Spread'' = ''spread''"
  by code_simp

lemma ex_on_home: "betting_on_home ''Ohio State'' ''Ohio State'' ''Miami'' (PFloat (- (7 / 2))) = Inr True"
  by code_simp

lemma ex_result: "wrapper_spread_result True (PInt 24) (PInt 21) (PFloat (- (7 / 2))) = Inr Loss"
  by code_simp

lemma ex_pl: "wrapper_final_pl Loss (PFloat (115 / 100)) False = Inr (- (63 / 50))"
  by code_simp

lemma ex_round: "py_round2 (- (63 / 50)) = - (63 / 50)"
  by code_simp

lemma ex_fields:
  "settle_bet_fields f example_bet example_game =
     Inr (Loss, PFloat (- (63 / 50)), PInt 0, ''Ohio State '' @ f (PInt 24) @ '' - '' @ f (PInt 21) @ '' Miami'')"
  using settle_bet_fields_spread [of example_game "PInt 24" "PInt 21" example_bet True Loss "- (63 / 50)" f]
    ex_scores ex_lower ex_on_home ex_result ex_pl ex_round
  by (simp add: example_bet_def example_game_def dict_get_def)

lemma ex_core: "settleBet (PInt 24) (PInt 21) ''spread'' ''Ohio State'' (PFloat (- (7 / 2))) (PFloat (115 / 100)) False
   = Inr \<lparr>result = Loss, final_pl = PFloat (- (127 / 100))\<rparr>"
  by code_simp

lemma ex_q: "quantize_half_up (- (115 / 100 * (11 / 10))) = - (127 / 100)"
  by code_simp

text \<open>
  C1. The profit or loss of a settled wager is the stake on a win, minus the stake (with
  juice waived) or minus 1.1 times the stake on a loss, and zero on a push, rounded half
  up to two decimals. The spread branch of the wrapper rounds a float with \<open>round\<close>
  instead: the example bet loses, \<open>-(1.15 * 1.1)\<close> is \<open>-1.265\<close>, which rounds half up to
  \<open>-1.27\<close>, the value \<open>settleBet\<close> returns on the same numbers; the wrapper stores
  \<open>-1.26\<close>.
\<close>

theorem settle_bet_spread_loss_not_half_up:
  "map_sum id b_profit (settle_bet py_str ''2025-01-01T12:00:00'' example_bet example_game)
     = Inr (Some (PFloat (- (126 / 100))))
   \<and> map_sum id final_pl
       (settleBet (PInt 24) (PInt 21) ''spread'' ''Ohio State'' (PFloat (- (7 / 2))) (PFloat (115 / 100)) False)
     = Inr (PFloat (- (127 / 100)))
   \<and> quantize_half_up (- (115 / 100 * (11 / 10))) = - (127 / 100)"
proof (intro conjI)
  show "map_sum id b_profit (settle_bet py_str ''2025-01-01T12:00:00'' example_bet example_game)
     = Inr (Some (PFloat (- (126 / 100))))"
    by (simp add: settle_bet_eq ex_fields bindE_def)
  show "map_sum id final_pl
       (settleBet (PInt 24) (PInt 21) ''spread'' ''Ohio State'' (PFloat (- (7 / 2))) (PFloat (115 / 100)) False)
     = Inr (PFloat (- (127 / 100)))"
    using ex_core by simp
  show "quantize_half_up (- (115 / 100 * (11 / 10))) = - (127 / 100)"
    by (rule ex_q)
qed

section \<open>Properties of the float model\<close>

lemma ilog2_le: "1 \<le> n \<Longrightarrow> 2 ^ ilog2 n \<le> n"
proof (induction n rule: ilog2.induct)
  case (1 n)
  show ?case
  proof (cases "n < 2")
    case True
    with "1.prems" show ?thesis by (simp add: ilog2.simps)
  next
    case False
    then have "1 \<le> n div 2" by simp
    with "1.IH" False have "2 ^ ilog2 (n div 2) \<le> n div 2" by simp
    then have "2 * 2 ^ ilog2 (n div 2) \<le> n" by simp
    with False show ?thesis by (simp add: ilog2.simps [of n])
  qed
qed

lemma ilog2_gt: "n < 2 ^ Suc (ilog2 n)"
proof (induction n rule: ilog2.induct)
  case (1 n)
  show ?case
  proof (cases "n < 2")
    case True
    then show ?thesis by (simp add: ilog2.simps)
  next
    case False
    with "1.IH" have "n div 2 < 2 ^ Suc (ilog2 (n div 2))" by simp
    then have "n < 2 * 2 ^ Suc (ilog2 (n div 2))" by simp
    with False show ?thesis by (simp add: ilog2.simps [of n])
  qed
qed


lemma clog2_ge: "n \<le> 2 ^ clog2 n"
proof (cases "n \<le> 1")
  case True
  then show ?thesis by (simp add: clog2_def)
next
  case False
  have "n - 1 < 2 ^ Suc (ilog2 (n - 1))" by (rule ilog2_gt)
  with False show ?thesis by (simp add: clog2_def)
qed






lemma fl_unit_le:
  assumes "0 < a"
  shows "(if 0 \<le> fexp a - 52 then 2 ^ nat (fexp a - 52) else 1 / 2 ^ nat (- (fexp a - 52))) \<le> a"
proof (cases "1 \<le> a")
  case True
  define n where "n = nat \<lfloor>a\<rfloor>"
  have "1 \<le> \<lfloor>a\<rfloor>" using True by simp
  then have n1: "1 \<le> n" unfolding n_def by linarith
  have fe: "fexp a = int (ilog2 n)" using True by (simp add: fexp_def n_def)
  have na: "(of_nat n :: rat) \<le> a" using assms by (simp add: n_def)
  have "(of_nat (2 ^ ilog2 n) :: rat) \<le> of_nat n"
    using ilog2_le [OF n1] by (simp only: of_nat_le_iff)
  then have "(2 :: rat) ^ ilog2 n \<le> of_nat n" by (simp only: of_nat_power of_nat_numeral)
  then have p: "(2 :: rat) ^ ilog2 n \<le> a" using na by (rule order_trans)
  show ?thesis
  proof (cases "0 \<le> fexp a - 52")
    case True
    have "(2 :: rat) ^ nat (fexp a - 52) \<le> 2 ^ ilog2 n"
      by (rule power_increasing) (simp_all add: fe)
    then have "(2 :: rat) ^ nat (fexp a - 52) \<le> a" using p by (rule order_trans)
    with True show ?thesis by (simp only: if_True)
  next
    case False
    have "(1 :: rat) / 2 ^ nat (- (fexp a - 52)) \<le> 1" by simp
    then have "(1 :: rat) / 2 ^ nat (- (fexp a - 52)) \<le> a" using \<open>1 \<le> a\<close> by (rule order_trans)
    with False show ?thesis by (simp only: if_False)
  qed
next
  case False
  define m where "m = nat \<lceil>1 / a\<rceil>"
  have fe: "fexp a = - int (clog2 m)" using False by (simp add: fexp_def m_def)
  have "1 / a \<le> of_int \<lceil>1 / a\<rceil>" by (rule le_of_int_ceiling)
  moreover have "0 < \<lceil>1 / a\<rceil>" using assms by simp
  ultimately have m_ge: "1 / a \<le> of_nat m" by (simp add: m_def)
  have "(of_nat m :: rat) \<le> of_nat (2 ^ clog2 m)" using clog2_ge [of m] by (simp only: of_nat_le_iff)
  then have "(of_nat m :: rat) \<le> 2 ^ clog2 m" by (simp only: of_nat_power of_nat_numeral)
  with m_ge have "1 / a \<le> 2 ^ clog2 m" by (rule order_trans)
  moreover have "(2 :: rat) ^ clog2 m \<le> 2 ^ (clog2 m + 52)" by (rule power_increasing) simp_all
  ultimately have "1 / a \<le> 2 ^ (clog2 m + 52)" by (rule order_trans)
  then have "1 \<le> a * 2 ^ (clog2 m + 52)" using assms by (simp add: divide_le_eq mult.commute)
  then have "1 / 2 ^ (clog2 m + 52) \<le> a" by (simp add: divide_le_eq)
  moreover have "nat (- (fexp a - 52)) = clog2 m + 52" by (simp add: fe)
  moreover have "\<not> 0 \<le> fexp a - 52" by (simp add: fe)
  ultimately show ?thesis by simp
qed

lemma round_half_even_pos: "1 \<le> x \<Longrightarrow> 0 < round_half_even x"
proof -
  assume "1 \<le> x"
  then have "1 \<le> \<lfloor>x\<rfloor>" by (simp add: le_floor_iff)
  then show ?thesis by (simp add: round_half_even_def Let_def)
qed

lemma fl_sgn: "sgn (fl q) = sgn q"
proof (cases "q = 0")
  case True
  then show ?thesis by (simp add: fl_def)
next
  case False
  define a where "a = \<bar>q\<bar>"
  define u :: rat where
    "u = (if 0 \<le> fexp a - 52 then 2 ^ nat (fexp a - 52) else 1 / 2 ^ nat (- (fexp a - 52)))"
  have a_pos: "0 < a" using False by (simp add: a_def)
  have u_pos: "0 < u" by (simp add: u_def)
  have "u \<le> a" unfolding u_def using a_pos by (rule fl_unit_le)
  then have "1 \<le> a / u" using u_pos by (simp add: le_divide_eq)
  then have r: "0 < round_half_even (a / u)" by (rule round_half_even_pos)
  have "fl q = sgn q * of_int (round_half_even (a / u)) * u"
    using False by (simp add: fl_def Let_def a_def u_def)
  then have "sgn (fl q) = sgn (sgn q) * sgn (of_int (round_half_even (a / u)) :: rat) * sgn u"
    by (simp add: sgn_mult)
  with r u_pos show ?thesis by simp
qed

lemma fl_neg_iff: "fl q < 0 \<longleftrightarrow> q < 0"
  using fl_sgn [of q] by (metis sgn_less)

lemma fl_pos_iff: "0 < fl q \<longleftrightarrow> 0 < q"
  using fl_sgn [of q] by (metis sgn_greater)

section \<open>Spread bets\<close>






lemma wrapper_spread_result_int:
  "wrapper_spread_result on_home (PInt h) (PInt a) (PInt k) =
     Inr (let backed = (if on_home then h else a);
              opponent = (if on_home then a else h);
              adjusted = backed + k
          in if adjusted > opponent then Win
             else if adjusted < opponent then Loss
             else Push)"
  by (cases on_home) (simp_all add: wrapper_spread_result_def bindE_def Let_def)

lemma wrapper_final_pl_Inr:
  "to_decimal stake = Inr sd \<Longrightarrow> \<exists>pl. wrapper_final_pl res stake nj = Inr pl"
  by (simp add: wrapper_final_pl_def bindE_def)

lemma settle_bet_result_spread:
  assumes "extract_scores gs = Inr (hs, aw)" and "hs \<noteq> PNone" and "aw \<noteq> PNone"
    and "py_lower (dict_get (b_bet_type bet) []) = ''spread''"
    and "betting_on_home (dict_get (b_team bet) []) (dict_get (gs_home_team gs) [])
           (dict_get (gs_away_team gs) []) (dict_get (b_spread bet) (PInt 0)) = Inr on_home"
    and "wrapper_spread_result on_home hs aw (dict_get (b_spread bet) (PInt 0)) = Inr res"
    and "to_decimal (dict_get (b_stake bet) (PInt 0)) = Inr sd"
  shows "map_sum id b_result (settle_bet f now bet gs) = Inr (Some res)"
proof -
  from assms(7) obtain pl where
    "wrapper_final_pl res (dict_get (b_stake bet) (PInt 0)) (dict_get (b_no_juice bet) False) = Inr pl"
    using wrapper_final_pl_Inr by blast
  with assms(1-6) show ?thesis
    by (simp add: settle_bet_eq settle_bet_fields_spread bindE_def)
qed









section \<open>Errors, determinism and the frame of the wrapper\<close>

subsection \<open>Errors of the core function\<close>

lemma settleBet_never_ScoresNull: "settleBet hs aw bt p li st nj \<noteq> Inl ScoresNull"
  by (cases hs; cases aw; cases li; cases st)
     (auto simp: settleBet_def convert_inputs_def bindE_def spread_decision_def Let_def
           split: if_splits)

lemma settleBet_errors:
  "to_decimal hs = Inr h \<Longrightarrow> to_decimal aw = Inr a \<Longrightarrow> to_decimal li = Inr l \<Longrightarrow>
   to_decimal st = Inr s \<Longrightarrow>
   (s \<le> 0 \<longrightarrow> settleBet hs aw bt p li st nj = Inl StakeNotPositive)
   \<and> (0 < s \<longrightarrow> bt \<noteq> ''spread'' \<longrightarrow> bt \<noteq> ''totals'' \<longrightarrow>
        settleBet hs aw bt p li st nj = Inl InvalidBetType)
   \<and> (0 < s \<longrightarrow> bt = ''totals'' \<longrightarrow> p \<noteq> ''Over'' \<longrightarrow> p \<noteq> ''Under'' \<longrightarrow>
        settleBet hs aw bt p li st nj = Inl InvalidUserPick)"
  by (simp add: settleBet_def convert_inputs_Inr bindE_def)

lemma settleBet_null_not_settled:
  "hs = PNone \<or> aw = PNone \<Longrightarrow> \<exists>e. settleBet hs aw bt p li st nj = Inl e"
  by (cases hs; cases aw; cases li; cases st)
     (auto simp: settleBet_def convert_inputs_def bindE_def)

text \<open>
  C7. \<open>settleBet\<close> is to raise the error of a missing score when a final score is null,
  and never to settle such an input. It does not settle it, but the error is another
  one: \<open>Decimal(str(None))\<close> raises \<open>decimal.InvalidOperation\<close>, which the handler of the
  conversions does not catch, so the test of line 68 with its \<open>ValueError\<close> is never
  reached.
\<close>

theorem settleBet_null_score_raises_InvalidOperation:
  "settleBet PNone (PInt 20) ''totals'' ''Over'' (PFloat (97 / 2)) (PInt 100) False
     = Inl InvalidOperation
   \<and> settleBet (PInt 24) PNone ''spread'' ''Ohio State'' (PFloat (- (7 / 2))) (PInt 100) False
     = Inl InvalidOperation
   \<and> \<not> is_ValueError_or_TypeError InvalidOperation"
  by (simp add: settleBet_def convert_inputs_def bindE_def)

subsection \<open>Determinism and the timestamp\<close>

text \<open>
  C8, as stated, fails: the settled record carries \<open>settled_at\<close>, the time of the call, so
  two resolutions of the same bet against the same score record at different times differ.
\<close>

theorem settle_bet_timestamp_counterexample:
  "settle_bet py_str ''2025-01-01T12:00:00'' example_bet example_game
     \<noteq> settle_bet py_str ''2025-01-01T12:00:01'' example_bet example_game"
proof -
  have "map_sum id b_settled_at (settle_bet py_str ''2025-01-01T12:00:00'' example_bet example_game)
          = Inr (Some ''2025-01-01T12:00:00'')"
    by (simp add: settle_bet_eq ex_fields bindE_def)
  moreover
  have "map_sum id b_settled_at (settle_bet py_str ''2025-01-01T12:00:01'' example_bet example_game)
          = Inr (Some ''2025-01-01T12:00:01'')"
    by (simp add: settle_bet_eq ex_fields bindE_def)
  ultimately show ?thesis by auto
qed

text \<open>
  C8, amended. Two resolutions of the same bet against the same score record agree on
  every field but \<open>settled_at\<close> (and raise the same error if they raise), and \<open>settled_at\<close>
  is the time of the call.
\<close>

theorem settle_bet_deterministic_but_timestamp:
  "map_sum id (\<lambda>b. b\<lparr>b_settled_at := None\<rparr>) (settle_bet f now1 bet gs)
     = map_sum id (\<lambda>b. b\<lparr>b_settled_at := None\<rparr>) (settle_bet f now2 bet gs)
   \<and> map_sum id b_settled_at (settle_bet f now1 bet gs)
     = map_sum id (\<lambda>b. Some now1) (settle_bet f now2 bet gs)"
  by (cases "settle_bet_fields f bet gs") (auto simp: settle_bet_eq bindE_def)

theorem settle_bet_deterministic_but_timestamp_witness:
  "map_sum id (\<lambda>b. b\<lparr>b_settled_at := None\<rparr>)
       (settle_bet py_str ''2025-01-01T12:00:00'' example_bet example_game)
     = map_sum id (\<lambda>b. b\<lparr>b_settled_at := None\<rparr>)
       (settle_bet py_str ''2025-01-01T12:00:01'' example_bet example_game)
   \<and> map_sum id b_settled_at (settle_bet py_str ''2025-01-01T12:00:00'' example_bet example_game)
     = Inr (Some ''2025-01-01T12:00:00'')"
  using settle_bet_deterministic_but_timestamp
    [where f = py_str and ?now1.0 = "''2025-01-01T12:00:00''" and ?now2.0 = "''2025-01-01T12:00:01''"
       and bet = example_bet and gs = example_game]
  by (simp add: settle_bet_eq ex_fields bindE_def)


subsection \<open>The input bet is not written\<close>

text \<open>
  C9. \<open>settle_bet\<close> never writes the bet it is given: after the call every object that was
  in the heap, the bet among them, is what it was, and the record returned is a new
  object, a copy of the bet with the six settlement keys set.
\<close>

theorem settle_bet_heap_frame:
  assumes "bet < length h" and "settle_bet_heap f now h bet gs = Inr (h', updated_bet)"
  shows "(\<forall>a < length h. h' ! a = h ! a)
       \<and> updated_bet = length h \<and> updated_bet \<noteq> bet \<and> length h' = Suc (length h)
       \<and> (\<exists>res pl po fs.
             settle_bet_fields f (h ! bet) gs = Inr (res, pl, po, fs)
             \<and> h' ! updated_bet =
                 (h ! bet)\<lparr>b_result := Some res, b_profit := Some pl, b_payout := Some po,
                           b_settled := Some True, b_settled_at := Some now,
                           b_final_score := Some fs\<rparr>)"
proof (cases "settle_bet_fields f (h ! bet) gs")
  case (Inl e)
  with assms(2) show ?thesis by (simp add: settle_bet_heap_def bindE_def)
next
  case (Inr v)
  obtain res pl po fs where v: "v = (res, pl, po, fs)" by (cases v) auto
  from assms(2) Inr v have
    h': "h' = (h @ [(h ! bet)\<lparr>b_result := Some res, b_profit := Some pl, b_payout := Some po,
                           b_settled := Some True, b_settled_at := Some now,
                           b_final_score := Some fs\<rparr>])"
    and u: "updated_bet = length h"
    by (simp_all add: settle_bet_heap_def bindE_def dict_copy_def dict_set_def)
  from assms(1) h' u Inr v show ?thesis by (simp add: nth_append)
qed

lemma ex_str: "digits_of 24 = ''24''" "digits_of 21 = ''21''"
  by code_simp+

lemma ex_heap:
  "settle_bet_heap py_str ''2025-01-01T12:00:00'' [example_bet] 0 example_game =
     Inr ([example_bet,
           example_bet\<lparr>b_result := Some Loss, b_profit := Some (PFloat (- (63 / 50))),
                        b_payout := Some (PInt 0), b_settled := Some True,
                        b_settled_at := Some ''2025-01-01T12:00:00'',
                        b_final_score := Some ''Ohio State 24 - 21 Miami''\<rparr>], 1)"
  by (simp add: settle_bet_heap_def ex_fields ex_str bindE_def dict_copy_def dict_set_def)

theorem settle_bet_heap_frame_witness:
  "(0 :: nat) < length [example_bet]
   \<and> settle_bet_heap py_str ''2025-01-01T12:00:00'' [example_bet] 0 example_game =
     Inr ([example_bet,
           example_bet\<lparr>b_result := Some Loss, b_profit := Some (PFloat (- (63 / 50))),
                        b_payout := Some (PInt 0), b_settled := Some True,
                        b_settled_at := Some ''2025-01-01T12:00:00'',
                        b_final_score := Some ''Ohio State 24 - 21 Miami''\<rparr>], 1)
   \<and> [example_bet,
           example_bet\<lparr>b_result := Some Loss, b_profit := Some (PFloat (- (63 / 50))),
                        b_payout := Some (PInt 0), b_settled := Some True,
                        b_settled_at := Some ''2025-01-01T12:00:00'',
                        b_final_score := Some ''Ohio State 24 - 21 Miami''\<rparr>] ! 0 = example_bet
   \<and> (1 :: nat) \<noteq> 0"
  using settle_bet_heap_frame [OF _ ex_heap] ex_heap by simp

section \<open>The backed side of a spread bet\<close>

lemma starts_with_prefix: "starts_with p s \<longleftrightarrow> prefix p s"
  by (induction p s rule: starts_with.induct) simp_all

lemma py_in_sublist: "py_in sub s \<longleftrightarrow> sublist sub s"
  by (induction s) (simp_all add: sublist_Cons_right starts_with_prefix)

lemma py_strip_decomp:
  "\<exists>p q. name = p @ py_strip name @ q \<and> (\<forall>c \<in> set p. py_isspace c) \<and> (\<forall>c \<in> set q. py_isspace c)"
proof -
  define p where "p = takeWhile py_isspace name"
  define r where "r = dropWhile py_isspace name"
  define q where "q = rev (takeWhile py_isspace (rev r))"
  have "name = p @ r" by (simp add: p_def r_def)
  moreover have "rev r = takeWhile py_isspace (rev r) @ dropWhile py_isspace (rev r)" by simp
  then have "r = rev (dropWhile py_isspace (rev r)) @ q"
    unfolding q_def by (metis rev_append rev_rev_ident)
  moreover have "\<forall>c \<in> set p. py_isspace c" unfolding p_def by (auto dest: set_takeWhileD)
  moreover have "\<forall>c \<in> set q. py_isspace c" unfolding q_def by (auto dest: set_takeWhileD)
  ultimately show ?thesis unfolding py_strip_def r_def by (metis append.assoc)
qed

lemma py_strip_ends:
  "py_strip name = [] \<or> (\<not> py_isspace (hd (py_strip name)) \<and> \<not> py_isspace (last (py_strip name)))"
proof -
  define r where "r = dropWhile py_isspace name"
  define t where "t = dropWhile py_isspace (rev r)"
  have s: "py_strip name = rev t" by (simp add: py_strip_def t_def r_def)
  show ?thesis
  proof (cases "t = []")
    case True
    with s show ?thesis by simp
  next
    case False
    then have h: "\<not> py_isspace (hd t)" unfolding t_def by (metis hd_dropWhile)
    have "set t \<subseteq> set r" unfolding t_def using set_dropWhileD by fastforce
    have "r \<noteq> []" using False unfolding t_def by auto
    then have hr: "\<not> py_isspace (hd r)" unfolding r_def by (metis hd_dropWhile)
    have "rev r = takeWhile py_isspace (rev r) @ t" by (simp add: t_def)
    then have "r = rev t @ rev (takeWhile py_isspace (rev r))" by (metis rev_append rev_rev_ident)
    with False have "hd r = hd (rev t)" by (metis hd_append2 rev_is_Nil_conv)
    with hr h False s show ?thesis by (simp add: last_rev)
  qed
qed

lemma py_lt_zero:
  "py_lt line (PInt 0) = (case line of PNone \<Rightarrow> Inl TypeError | PInt i \<Rightarrow> Inr (i < 0)
                           | PFloat r \<Rightarrow> Inr (r < 0))"
  by (cases line) (simp_all add: fl_neg_iff)


text \<open>
  C4. For a spread bet the wrapper finds the backed side from the names: the pick and the
  two team names of the score record are normalized (surrounding whitespace stripped,
  lower case, spaces removed); equality with the home name, then with the away name, is
  tested first, then containment in either direction, for the home name and then for
  the away name; only if none of these holds does the sign of the line decide, the home
  team for a negative line and the away team otherwise. The result of the settled bet is
  the decision for the side found.
\<close>

theorem betting_on_home_rule:
  "(let u = settle_bet_normalize_team_name user_pick;
        hn = settle_bet_normalize_team_name score_home;
        an = settle_bet_normalize_team_name score_away
    in betting_on_home user_pick score_home score_away line =
         (if u = hn then Inr True
          else if u = an then Inr False
          else if sublist u hn \<or> sublist hn u then Inr True
          else if sublist u an \<or> sublist an u then Inr False
          else (case line of
                  PNone \<Rightarrow> Inl TypeError
                | PInt i \<Rightarrow> Inr (i < 0)
                | PFloat r \<Rightarrow> Inr (r < 0))))
   \<and> settle_bet_normalize_team_name name =
       filter (\<lambda>c. c \<noteq> CHR '' '') (map py_lower_char (py_strip name))
   \<and> (\<exists>p q. name = p @ py_strip name @ q
            \<and> (\<forall>c \<in> set p. py_isspace c) \<and> (\<forall>c \<in> set q. py_isspace c))
   \<and> (py_strip name = []
      \<or> (\<not> py_isspace (hd (py_strip name)) \<and> \<not> py_isspace (last (py_strip name))))
   \<and> (extract_scores gs = Inr (hs, aw) \<longrightarrow> hs \<noteq> PNone \<longrightarrow> aw \<noteq> PNone \<longrightarrow>
      py_lower (dict_get (b_bet_type bet) []) = ''spread'' \<longrightarrow>
      betting_on_home (dict_get (b_team bet) []) (dict_get (gs_home_team gs) [])
        (dict_get (gs_away_team gs) []) (dict_get (b_spread bet) (PInt 0)) = Inr on_home \<longrightarrow>
      wrapper_spread_result on_home hs aw (dict_get (b_spread bet) (PInt 0)) = Inr res \<longrightarrow>
      to_decimal (dict_get (b_stake bet) (PInt 0)) = Inr sd \<longrightarrow>
      map_sum id b_result (settle_bet f now bet gs) = Inr (Some res))"
proof (intro conjI impI)
  show "let u = settle_bet_normalize_team_name user_pick;
        hn = settle_bet_normalize_team_name score_home;
        an = settle_bet_normalize_team_name score_away
    in betting_on_home user_pick score_home score_away line =
         (if u = hn then Inr True
          else if u = an then Inr False
          else if sublist u hn \<or> sublist hn u then Inr True
          else if sublist u an \<or> sublist an u then Inr False
          else (case line of
                  PNone \<Rightarrow> Inl TypeError
                | PInt i \<Rightarrow> Inr (i < 0)
                | PFloat r \<Rightarrow> Inr (r < 0)))"
    by (simp add: betting_on_home_def Let_def py_in_sublist py_lt_zero)
next
  show "settle_bet_normalize_team_name name =
       filter (\<lambda>c. c \<noteq> CHR '' '') (map py_lower_char (py_strip name))"
    by (simp add: settle_bet_normalize_team_name_def remove_spaces_def py_lower_def)
next
  show "\<exists>p q. name = p @ py_strip name @ q
            \<and> (\<forall>c \<in> set p. py_isspace c) \<and> (\<forall>c \<in> set q. py_isspace c)"
    by (rule py_strip_decomp)
next
  show "py_strip name = []
      \<or> (\<not> py_isspace (hd (py_strip name)) \<and> \<not> py_isspace (last (py_strip name)))"
    by (rule py_strip_ends)
next
  assume "extract_scores gs = Inr (hs, aw)" "hs \<noteq> PNone" "aw \<noteq> PNone"
    "py_lower (dict_get (b_bet_type bet) []) = ''spread''"
    "betting_on_home (dict_get (b_team bet) []) (dict_get (gs_home_team gs) [])
        (dict_get (gs_away_team gs) []) (dict_get (b_spread bet) (PInt 0)) = Inr on_home"
    "wrapper_spread_result on_home hs aw (dict_get (b_spread bet) (PInt 0)) = Inr res"
    "to_decimal (dict_get (b_stake bet) (PInt 0)) = Inr sd"
  then show "map_sum id b_result (settle_bet f now bet gs) = Inr (Some res)"
    by (rule settle_bet_result_spread)
qed

lemma ex_norm:
  "settle_bet_normalize_team_name '' Ohio  State '' = ''ohiostate''"
  "settle_bet_normalize_team_name ''Ohio State Buckeyes'' = ''ohiostatebuckeyes''"
  "settle_bet_normalize_team_name ''Miami'' = ''miami''"
  "settle_bet_normalize_team_name ''Florida'' = ''florida''"
  by code_simp+

lemma ex_sub:
  "sublist ''ohiostate'' ''ohiostatebuckeyes''"
  "\<not> sublist ''florida'' ''ohiostatebuckeyes''" "\<not> sublist ''ohiostatebuckeyes'' ''florida''"
  "\<not> sublist ''florida'' ''miami''" "\<not> sublist ''miami'' ''florida''"
  by code_simp+


theorem betting_on_home_rule_witness:
  "betting_on_home '' Ohio  State '' ''Ohio State Buckeyes'' ''Miami'' (PFloat (7 / 2)) = Inr True
   \<and> betting_on_home ''Florida'' ''Ohio State Buckeyes'' ''Miami'' (PFloat (7 / 2)) = Inr False
   \<and> betting_on_home ''Florida'' ''Ohio State Buckeyes'' ''Miami'' (PFloat (- (7 / 2))) = Inr True
   \<and> map_sum id b_result (settle_bet py_str ''2025-01-01T12:00:00'' example_bet example_game)
     = Inr (Some Loss)"
proof (intro conjI)
  show "betting_on_home '' Ohio  State '' ''Ohio State Buckeyes'' ''Miami'' (PFloat (7 / 2)) = Inr True"
    using betting_on_home_rule [where user_pick = "'' Ohio  State ''" and score_home = "''Ohio State Buckeyes''"
          and score_away = "''Miami''" and line = "PFloat (7 / 2)",
        THEN conjunct1]
    by (simp add: ex_norm ex_sub)
  show "betting_on_home ''Florida'' ''Ohio State Buckeyes'' ''Miami'' (PFloat (7 / 2)) = Inr False"
    using betting_on_home_rule [where user_pick = "''Florida''" and score_home = "''Ohio State Buckeyes''"
          and score_away = "''Miami''" and line = "PFloat (7 / 2)",
        THEN conjunct1]
    by (simp add: ex_norm ex_sub)
  show "betting_on_home ''Florida'' ''Ohio State Buckeyes'' ''Miami'' (PFloat (- (7 / 2))) = Inr True"
    using betting_on_home_rule [where user_pick = "''Florida''" and score_home = "''Ohio State Buckeyes''"
          and score_away = "''Miami''" and line = "PFloat (- (7 / 2))",
        THEN conjunct1]
    by (simp add: ex_norm ex_sub)
  show "map_sum id b_result (settle_bet py_str ''2025-01-01T12:00:00'' example_bet example_game)
     = Inr (Some Loss)"
    using betting_on_home_rule [where gs = example_game and hs = "PInt 24" and aw = "PInt 21" and bet = example_bet
          and on_home = True and res = Loss and sd = "23 / 20" and f = py_str
          and now = "''2025-01-01T12:00:00''",
        THEN conjunct2, THEN conjunct2, THEN conjunct2, THEN conjunct2]
      ex_scores ex_lower ex_on_home ex_result
    by (simp add: example_bet_def example_game_def dict_get_def)
qed

section \<open>Properties of the game matcher\<close>

lemma split_aux_nonempty: "split_aux sep k acc s \<noteq> []"
  by (induction sep k acc s rule: split_aux.induct) simp_all

lemma py_join_Cons: "L \<noteq> [] \<Longrightarrow> py_join sep (x # L) = x @ sep @ py_join sep L"
  by (cases L) simp_all

lemma split_aux_join:
  "sep \<noteq> [] \<Longrightarrow> py_join sep (split_aux sep k acc s) = rev acc @ drop k s"
proof (induction sep k acc s rule: split_aux.induct)
  case (1 sep skip acc)
  then show ?case by simp
next
  case (2 sep k acc c cs)
  then show ?case by simp
next
  case (3 sep acc c cs)
  show ?case
  proof (cases "starts_with sep (c # cs)")
    case True
    then obtain t where t: "c # cs = sep @ t" by (auto simp: starts_with_prefix prefix_def)
    with "3.prems" have "t = drop (length sep - 1) cs"
      by (cases sep) auto
    with t have eq: "sep @ drop (length sep - 1) cs = c # cs" by simp
    have "split_aux sep 0 acc (c # cs) = rev acc # split_aux sep (length sep - 1) [] cs"
      using True by simp
    then have "py_join sep (split_aux sep 0 acc (c # cs)) =
                 rev acc @ sep @ py_join sep (split_aux sep (length sep - 1) [] cs)"
      by (simp only: py_join_Cons [OF split_aux_nonempty])
    also have "\<dots> = rev acc @ sep @ drop (length sep - 1) cs"
      using "3.IH"(1) [OF True "3.prems"] by simp
    also have "\<dots> = rev acc @ (c # cs)" by (simp only: eq)
    finally show ?thesis by simp
  next
    case False
    with "3.IH"(2) "3.prems" show ?thesis by simp
  qed
qed

lemma py_split_join: "sep \<noteq> [] \<Longrightarrow> py_join sep (py_split sep s) = s"
  by (simp add: py_split_def split_aux_join)

lemma py_split_two: "sep \<noteq> [] \<Longrightarrow> py_split sep s = [x, y] \<Longrightarrow> s = x @ sep @ y"
  using py_split_join [of sep s] by simp


lemma words_aux_props:
  "(\<forall>c \<in> set acc. \<not> py_isspace c) \<Longrightarrow>
   \<forall>w \<in> set (words_aux acc s). w \<noteq> [] \<and> (\<forall>c \<in> set w. \<not> py_isspace c)"
proof (induction acc s rule: words_aux.induct)
  case (1 acc)
  then show ?case by simp
next
  case (2 acc c cs)
  show ?case
  proof (cases "py_isspace c")
    case True
    show ?thesis
    proof (cases "acc = []")
      case e: True
      from e True "2.IH"(1) show ?thesis by simp
    next
      case ne: False
      from ne True "2.IH"(2) "2.prems" show ?thesis by simp
    qed
  next
    case False
    with "2.IH"(3) "2.prems" show ?thesis by simp
  qed
qed

lemma py_words_props: "\<forall>w \<in> set (py_words s). w \<noteq> [] \<and> (\<forall>c \<in> set w. \<not> py_isspace c)"
  unfolding py_words_def using words_aux_props [of "[]" s] by simp

lemma match_loop_find:
  "match_loop bet_home bet_away scores =
     find (\<lambda>score. completed_signal score
             \<and> (teams_match bet_home (py_strip (dict_get (gs_home_team score) []))
                  \<and> teams_match bet_away (py_strip (dict_get (gs_away_team score) []))
                \<or> teams_match bet_home (py_strip (dict_get (gs_away_team score) []))
                  \<and> teams_match bet_away (py_strip (dict_get (gs_home_team score) []))))
          scores"
  by (induction scores) (simp_all add: normalize_team_name_def Let_def)


lemma teams_match_iff:
  "teams_match x y \<longleftrightarrow>
     (let t1 = py_strip (py_lower x); t2 = py_strip (py_lower y)
      in t1 = t2 \<or> sublist t1 t2 \<or> sublist t2 t1
         \<or> (\<exists>w. length w > 3 \<and> w \<in> set (py_words t1) \<and> w \<in> set (py_words t2)))"
proof -
  define t1 where "t1 = py_strip (py_lower x)"
  define t2 where "t2 = py_strip (py_lower y)"
  define W1 where "W1 = set (filter (\<lambda>w. length w > 3) (py_words t1))"
  define W2 where "W2 = set (filter (\<lambda>w. length w > 3) (py_words t2))"
  have "(W1 \<noteq> {} \<and> W2 \<noteq> {} \<and> W1 \<inter> W2 \<noteq> {}) \<longleftrightarrow> W1 \<inter> W2 \<noteq> {}" by blast
  also have "\<dots> \<longleftrightarrow> (\<exists>w. length w > 3 \<and> w \<in> set (py_words t1) \<and> w \<in> set (py_words t2))"
    unfolding W1_def W2_def by auto
  finally have w: "(W1 \<noteq> {} \<and> W2 \<noteq> {} \<and> W1 \<inter> W2 \<noteq> {}) \<longleftrightarrow>
      (\<exists>w. length w > 3 \<and> w \<in> set (py_words t1) \<and> w \<in> set (py_words t2))" .
  have "teams_match x y \<longleftrightarrow>
          (t1 = t2 \<or> py_in t1 t2 \<or> py_in t2 t1 \<or> (W1 \<noteq> {} \<and> W2 \<noteq> {} \<and> W1 \<inter> W2 \<noteq> {}))"
    unfolding teams_match_def Let_def t1_def [symmetric] t2_def [symmetric]
      W1_def [symmetric] W2_def [symmetric]
    by simp
  then show ?thesis
    unfolding Let_def t1_def [symmetric] t2_def [symmetric] w py_in_sublist by simp
qed

lemma teams_match_sym: "teams_match x y = teams_match y x"
proof -
  define t1 where "t1 = py_strip (py_lower x)"
  define t2 where "t2 = py_strip (py_lower y)"
  show ?thesis
    unfolding teams_match_iff Let_def t1_def [symmetric] t2_def [symmetric] by auto
qed

lemma completed_signal_iff:
  "completed_signal score \<longleftrightarrow>
     gs_completed score = Some True \<or> (\<exists>v. gs_scores score = Some v \<and> v \<noteq> ScoresNone)"
  by (cases "gs_completed score"; cases "gs_scores score")
     (auto simp: completed_signal_def dict_get_def split: scores_val.splits)

lemma find_matching_game_parsed:
  "parse_game bet_game = Inr (Some (bet_home, bet_away)) \<Longrightarrow>
   find_matching_game bet_game scores = Inr (match_loop (py_strip bet_home) (py_strip bet_away) scores)"
  by (simp add: find_matching_game_def bindE_def normalize_team_name_def)

lemma parse_game_vs:
  "sublist '' vs '' bet_game \<Longrightarrow> py_split '' vs '' bet_game = [x, y] \<Longrightarrow>
   parse_game bet_game = Inr (Some (x, y))"
  by (simp add: parse_game_def py_in_sublist)

lemma parse_game_at:
  "\<not> sublist '' vs '' bet_game \<Longrightarrow> sublist '' @ '' bet_game \<Longrightarrow>
   py_split '' @ '' bet_game = [x, y] \<Longrightarrow> parse_game bet_game = Inr (Some (y, x))"
  by (simp add: parse_game_def py_in_sublist)

lemma parse_game_words:
  "\<not> sublist '' vs '' bet_game \<Longrightarrow> \<not> sublist '' @ '' bet_game \<Longrightarrow>
   parse_game bet_game =
     (if 2 \<le> length (py_words bet_game)
      then Inr (Some (last (py_words bet_game), hd (py_words bet_game))) else Inr None)"
  by (simp add: parse_game_def py_in_sublist Let_def)

lemma ex_find_tulane:
  "find_matching_game ''Tulane vs Ole Miss'' [example_game, tulane_game] = Inr (Some tulane_game)"
  by code_simp

lemma ex_find_unrelated: "find_matching_game ''Tulane vs Ole Miss'' [example_game] = Inr None"
  by code_simp

text \<open>
  C6. The matcher looks only at the candidates with a completed signal (\<open>completed\<close> true,
  or \<open>scores\<close> present and not null) and returns the first of them, in the order of the
  input, for which the two names of the label match the two team names of the record in
  one of the two pairings. Two names match when, in lower case and stripped, they are
  equal, or one is contained in the other, or they share a word of more than three
  characters; the test is symmetric. The label "Tulane vs Ole Miss" matches the game of
  the Ole Miss Rebels against the Tulane Green Wave and no unrelated game.
\<close>

theorem find_matching_game_first_fit:
  "(parse_game bet_game = Inr (Some (bet_home, bet_away)) \<longrightarrow>
      find_matching_game bet_game scores =
        Inr (find (\<lambda>score. completed_signal score
                    \<and> (teams_match (py_strip bet_home) (py_strip (dict_get (gs_home_team score) []))
                         \<and> teams_match (py_strip bet_away) (py_strip (dict_get (gs_away_team score) []))
                       \<or> teams_match (py_strip bet_home) (py_strip (dict_get (gs_away_team score) []))
                         \<and> teams_match (py_strip bet_away) (py_strip (dict_get (gs_home_team score) []))))
               scores))
   \<and> (completed_signal score \<longleftrightarrow>
        gs_completed score = Some True \<or> (\<exists>v. gs_scores score = Some v \<and> v \<noteq> ScoresNone))
   \<and> teams_match x y = teams_match y x
   \<and> (teams_match x y \<longleftrightarrow>
        (let t1 = py_strip (py_lower x); t2 = py_strip (py_lower y)
         in t1 = t2 \<or> sublist t1 t2 \<or> sublist t2 t1
            \<or> (\<exists>w. length w > 3 \<and> w \<in> set (py_words t1) \<and> w \<in> set (py_words t2))))
   \<and> find_matching_game ''Tulane vs Ole Miss'' [example_game, tulane_game] = Inr (Some tulane_game)
   \<and> find_matching_game ''Tulane vs Ole Miss'' [example_game] = Inr None"
proof (intro conjI impI)
  assume "parse_game bet_game = Inr (Some (bet_home, bet_away))"
  then show "find_matching_game bet_game scores =
        Inr (find (\<lambda>score. completed_signal score
                    \<and> (teams_match (py_strip bet_home) (py_strip (dict_get (gs_home_team score) []))
                         \<and> teams_match (py_strip bet_away) (py_strip (dict_get (gs_away_team score) []))
                       \<or> teams_match (py_strip bet_home) (py_strip (dict_get (gs_away_team score) []))
                         \<and> teams_match (py_strip bet_away) (py_strip (dict_get (gs_home_team score) []))))
               scores)"
    by (simp only: find_matching_game_parsed match_loop_find)
next
  show "completed_signal score \<longleftrightarrow>
        gs_completed score = Some True \<or> (\<exists>v. gs_scores score = Some v \<and> v \<noteq> ScoresNone)"
    by (rule completed_signal_iff)
next
  show "teams_match x y = teams_match y x" by (rule teams_match_sym)
next
  show "teams_match x y \<longleftrightarrow>
        (let t1 = py_strip (py_lower x); t2 = py_strip (py_lower y)
         in t1 = t2 \<or> sublist t1 t2 \<or> sublist t2 t1
            \<or> (\<exists>w. length w > 3 \<and> w \<in> set (py_words t1) \<and> w \<in> set (py_words t2)))"
    by (rule teams_match_iff)
next
  show "find_matching_game ''Tulane vs Ole Miss'' [example_game, tulane_game] = Inr (Some tulane_game)"
    by (rule ex_find_tulane)
next
  show "find_matching_game ''Tulane vs Ole Miss'' [example_game] = Inr None"
    by (rule ex_find_unrelated)
qed

lemma ex_parse_at: "parse_game ''Miami @ Ohio State'' = Inr (Some (''Ohio State'', ''Miami''))"
  by code_simp

lemma ex_find_first:
  "find (\<lambda>score. completed_signal score
           \<and> (teams_match (py_strip ''Ohio State'') (py_strip (dict_get (gs_home_team score) []))
                \<and> teams_match (py_strip ''Miami'') (py_strip (dict_get (gs_away_team score) []))
              \<or> teams_match (py_strip ''Ohio State'') (py_strip (dict_get (gs_away_team score) []))
                \<and> teams_match (py_strip ''Miami'') (py_strip (dict_get (gs_home_team score) []))))
      [tulane_game, example_game, example_game\<lparr>gs_home_score := Some (PInt 7)\<rparr>]
   = Some example_game"
  by code_simp

theorem find_matching_game_first_fit_witness:
  "parse_game ''Miami @ Ohio State'' = Inr (Some (''Ohio State'', ''Miami''))
   \<and> find_matching_game ''Miami @ Ohio State''
       [tulane_game, example_game, example_game\<lparr>gs_home_score := Some (PInt 7)\<rparr>]
     = Inr (Some example_game)"
  using find_matching_game_first_fit
      [where bet_game = "''Miami @ Ohio State''" and bet_home = "''Ohio State''"
         and bet_away = "''Miami''"
         and scores = "[tulane_game, example_game, example_game\<lparr>gs_home_score := Some (PInt 7)\<rparr>]",
       THEN conjunct1]
    ex_parse_at
  by (simp only: ex_find_first simp_thms)


lemma ex_empty_sides:
  "find_matching_game '' vs '' [example_game] = Inr (Some example_game)"
  "py_split '' vs '' '' vs '' = [[], []]"
  "\<not> py_in '' @ '' '' vs ''"
  "py_words '' vs '' = [''vs'']"
  by code_simp+

text \<open>
  C5, as stated, fails: the label \<open>" vs "\<close> contains the first separator, which yields two
  empty names; it has no \<open>" @ "\<close> and a single whitespace-delimited token, so no rule
  yields two names that are not empty, yet the matcher does not return \<open>None\<close>: an empty
  name is contained in every team name, and the first completed candidate is returned.
\<close>

theorem find_matching_game_empty_sides_counterexample:
  "py_split '' vs '' '' vs '' = [[], []]
   \<and> \<not> sublist '' @ '' '' vs ''
   \<and> length (py_words '' vs '') < 2
   \<and> find_matching_game '' vs '' [example_game] = Inr (Some example_game)"
  using ex_empty_sides by (simp add: py_in_sublist)

text \<open>
  C5, amended. The matcher splits the label at \<open>" vs "\<close> if the label contains it, else at
  \<open>" @ "\<close> if it contains that, else takes the first and the last whitespace-delimited
  token. It returns \<open>None\<close> when the label contains neither separator and has fewer than
  two tokens. When the separator in use splits the label in exactly two parts, the two
  parts are the names as they are, empty or not, and the candidates are searched with
  them.
\<close>

theorem find_matching_game_parse:
  "(\<not> sublist '' vs '' bet_game \<longrightarrow> \<not> sublist '' @ '' bet_game \<longrightarrow>
      length (py_words bet_game) < 2 \<longrightarrow> find_matching_game bet_game scores = Inr None)
   \<and> (sublist '' vs '' bet_game \<longrightarrow> py_split '' vs '' bet_game = [x, y] \<longrightarrow>
      bet_game = x @ '' vs '' @ y
      \<and> find_matching_game bet_game scores = Inr (match_loop (py_strip x) (py_strip y) scores))
   \<and> (\<not> sublist '' vs '' bet_game \<longrightarrow> sublist '' @ '' bet_game \<longrightarrow>
      py_split '' @ '' bet_game = [x, y] \<longrightarrow>
      bet_game = x @ '' @ '' @ y
      \<and> find_matching_game bet_game scores = Inr (match_loop (py_strip y) (py_strip x) scores))
   \<and> (\<not> sublist '' vs '' bet_game \<longrightarrow> \<not> sublist '' @ '' bet_game \<longrightarrow>
      2 \<le> length (py_words bet_game) \<longrightarrow>
      find_matching_game bet_game scores =
        Inr (match_loop (py_strip (last (py_words bet_game))) (py_strip (hd (py_words bet_game)))
               scores))
   \<and> (\<forall>w \<in> set (py_words bet_game). w \<noteq> [] \<and> (\<forall>c \<in> set w. \<not> py_isspace c))"
proof (intro conjI impI)
  assume "\<not> sublist '' vs '' bet_game" "\<not> sublist '' @ '' bet_game" "length (py_words bet_game) < 2"
  then show "find_matching_game bet_game scores = Inr None"
    by (simp add: find_matching_game_def parse_game_words bindE_def)
next
  assume a: "sublist '' vs '' bet_game" "py_split '' vs '' bet_game = [x, y]"
  from a(2) show "bet_game = x @ '' vs '' @ y" by (intro py_split_two) simp_all
  from a show "find_matching_game bet_game scores = Inr (match_loop (py_strip x) (py_strip y) scores)"
    by (intro find_matching_game_parsed parse_game_vs)
next
  assume a: "\<not> sublist '' vs '' bet_game" "sublist '' @ '' bet_game" "py_split '' @ '' bet_game = [x, y]"
  from a(3) show "bet_game = x @ '' @ '' @ y" by (intro py_split_two) simp_all
  from a show "find_matching_game bet_game scores = Inr (match_loop (py_strip y) (py_strip x) scores)"
    by (intro find_matching_game_parsed parse_game_at)
next
  assume "\<not> sublist '' vs '' bet_game" "\<not> sublist '' @ '' bet_game" "2 \<le> length (py_words bet_game)"
  then show "find_matching_game bet_game scores =
        Inr (match_loop (py_strip (last (py_words bet_game))) (py_strip (hd (py_words bet_game)))
               scores)"
    by (intro find_matching_game_parsed) (simp add: parse_game_words)
next
  show "\<forall>w \<in> set (py_words bet_game). w \<noteq> [] \<and> (\<forall>c \<in> set w. \<not> py_isspace c)"
    by (rule py_words_props)
qed

lemma ex_label_one_word:
  "\<not> py_in '' vs '' ''Tulane''" "\<not> py_in '' @ '' ''Tulane''" "py_words ''Tulane'' = [''Tulane'']"
  by code_simp+

lemma ex_label_vs:
  "py_in '' vs '' ''Ohio State vs Miami''"
  "py_split '' vs '' ''Ohio State vs Miami'' = [''Ohio State'', ''Miami'']"
  "match_loop (py_strip ''Ohio State'') (py_strip ''Miami'') [tulane_game, example_game]
     = Some example_game"
  by code_simp+

lemma ex_label_words:
  "\<not> py_in '' vs '' ''Miami Ohio''" "\<not> py_in '' @ '' ''Miami Ohio''"
  "py_words ''Miami Ohio'' = [''Miami'', ''Ohio'']"
  "match_loop (py_strip ''Ohio'') (py_strip ''Miami'') [tulane_game, example_game]
     = Some example_game"
  by code_simp+

lemma ex_label_at:
  "\<not> py_in '' vs '' ''Miami @ Ohio State''" "py_in '' @ '' ''Miami @ Ohio State''"
  "py_split '' @ '' ''Miami @ Ohio State'' = [''Miami'', ''Ohio State'']"
  "match_loop (py_strip ''Ohio State'') (py_strip ''Miami'') [tulane_game, example_game]
     = Some example_game"
  by code_simp+

theorem find_matching_game_parse_witness:
  "\<not> sublist '' vs '' ''Tulane'' \<and> \<not> sublist '' @ '' ''Tulane'' \<and> length (py_words ''Tulane'') < 2
   \<and> find_matching_game ''Tulane'' [tulane_game, example_game] = Inr None
   \<and> sublist '' @ '' ''Miami @ Ohio State''
   \<and> py_split '' @ '' ''Miami @ Ohio State'' = [''Miami'', ''Ohio State'']
   \<and> find_matching_game ''Miami @ Ohio State'' [tulane_game, example_game] = Inr (Some example_game)
   \<and> sublist '' vs '' ''Ohio State vs Miami''
   \<and> py_split '' vs '' ''Ohio State vs Miami'' = [''Ohio State'', ''Miami'']
   \<and> find_matching_game ''Ohio State vs Miami'' [tulane_game, example_game] = Inr (Some example_game)
   \<and> \<not> sublist '' vs '' ''Miami Ohio'' \<and> \<not> sublist '' @ '' ''Miami Ohio''
   \<and> 2 \<le> length (py_words ''Miami Ohio'')
   \<and> find_matching_game ''Miami Ohio'' [tulane_game, example_game] = Inr (Some example_game)"
  using find_matching_game_parse
      [where bet_game = "''Tulane''" and scores = "[tulane_game, example_game]", THEN conjunct1]
    find_matching_game_parse
      [where bet_game = "''Miami @ Ohio State''" and scores = "[tulane_game, example_game]"
         and x = "''Miami''" and y = "''Ohio State''", THEN conjunct2, THEN conjunct2, THEN conjunct1]
    find_matching_game_parse
      [where bet_game = "''Ohio State vs Miami''" and scores = "[tulane_game, example_game]"
         and x = "''Ohio State''" and y = "''Miami''", THEN conjunct2, THEN conjunct1]
    find_matching_game_parse
      [where bet_game = "''Miami Ohio''" and scores = "[tulane_game, example_game]",
         THEN conjunct2, THEN conjunct2, THEN conjunct2, THEN conjunct1]
    ex_label_one_word ex_label_at ex_label_vs ex_label_words
  by (simp add: py_in_sublist)

end
